theory Spec2Isabelle
  imports Complex_Main
begin

section \<open>The seeded JSON data generator (cypress/utils/json-data-generator.ts)\<close>

text \<open>
  A shallow embedding of the class \<open>JSONDataGenerator\<close>. JavaScript numbers are
  modelled as exact real numbers: the generator's arithmetic stays far below \<open>2^53\<close> once
  the seed has been reduced modulo 233280, so the rounding of doubles is not modelled.
  Every method that reads or advances the closure variable \<open>currentSeed\<close> takes the
  state and returns the new one. A JavaScript \<open>undefined\<close> result is \<open>None\<close>, an
  exception is the left summand of a sum. Property names are ordinary own properties
  (names that \<open>Object.prototype\<close> gives a meaning of its own are outside the model).
\<close>

subsection \<open>Values\<close>

text \<open>A parsed JSON document: the type descriptors of a template's schema.\<close>

datatype json =
    JNull
  | JBool bool
  | JNum real
  | JStr string
  | JArr "json list"
  | JObj "(string \<times> json) list"

text \<open>
  The values the generator builds. An object lists its own properties in insertion order;
  \<open>VUndefined\<close> and \<open>VNaN\<close> only arise when an index falls outside a pool.
\<close>

datatype jsval =
    VUndefined
  | VNaN
  | VNum real
  | VBool bool
  | VStr string
  | VArr "jsval list"
  | VObj "(string \<times> jsval) list"

datatype error = RangeError | Error string

text \<open>
  The per-field constraint object. The source reads the properties \<open>min\<close>, \<open>max\<close>,
  \<open>decimal\<close>, \<open>minLength\<close>, \<open>maxLength\<close>, \<open>minAge\<close>, \<open>maxAge\<close> (JSON numbers) and
  \<open>format\<close> (a string); an absent property is \<open>None\<close>.
\<close>

record Constraints =
  min_c :: "real option"
  max_c :: "real option"
  decimal :: "real option"
  minLength :: "real option"
  maxLength :: "real option"
  minAge :: "real option"
  maxAge :: "real option"
  format :: "string option"

text \<open>
  \<open>interface DataTemplate\<close>. The schema keeps the order of \<open>Object.entries\<close>; the
  three optional tables are looked up by field name. Data pools hold strings, as the
  signatures of \<open>generateString\<close> and \<open>varyString\<close> say.
\<close>

record DataTemplate =
  schema :: "(string \<times> json) list"
  constraints :: "(string \<rightharpoonup> Constraints) option"
  enums :: "(string \<rightharpoonup> string list) option"
  data :: "(string \<rightharpoonup> string list) option"

text \<open>\<open>interface GenerationOptions\<close>; \<open>generate\<close> reads count, variations and unique.\<close>

record GenerationOptions =
  count :: "int option"
  locale_name :: "string option"
  seed :: "real option"
  variations :: "bool option"
  unique :: "bool option"

text \<open>
  The closure variable of \<open>createSeededRandom\<close>, together with the number of times this
  instance has read the system clock (\<open>new Date()\<close>).
\<close>

record gstate =
  currentSeed :: real
  clockReads :: nat

text \<open>
  What the generator takes from its surroundings: the successive readings of the system
  clock in milliseconds, the local-time parts of \<open>Date\<close>, the value \<open>Math.random()\<close>
  returns to the constructor, \<open>JSON.stringify\<close>, and the file system with \<open>JSON.parse\<close>
  and \<open>path.join(__dirname, ...)\<close>. A failing read or parse gives the text of what it
  throws; a successful parse gives a template object, as the annotation
  \<open>const template: DataTemplate\<close> has it.
\<close>

record env =
  clock :: "nat \<Rightarrow> real"
  getFullYear :: "real \<Rightarrow> int"
  Date_of_parts :: "real \<Rightarrow> int \<Rightarrow> int \<Rightarrow> real option"
  mathRandom :: real
  JSON_stringify :: "jsval \<Rightarrow> string"
  readFileSync :: "string \<Rightarrow> string + string"
  JSON_parse :: "string \<Rightarrow> string + DataTemplate"
  path_join_dirname :: "string \<Rightarrow> string"

record generator =
  templates :: "string \<rightharpoonup> DataTemplate"
  rng :: gstate

subsection \<open>JavaScript operators the source uses\<close>

text \<open>The remainder \<open>a % m\<close>: the quotient is truncated towards zero.\<close>

definition js_rem :: "real \<Rightarrow> real \<Rightarrow> real" where
  "js_rem a m = a - m * of_int (if a / m < 0 then - \<lfloor>- (a / m)\<rfloor> else \<lfloor>a / m\<rfloor>)"

text \<open>\<open>x || d\<close> on an optional number: absent and 0 are both falsy.\<close>

definition falsy_or :: "real option \<Rightarrow> real \<Rightarrow> real" where
  "falsy_or x d = (case x of None \<Rightarrow> d | Some v \<Rightarrow> if v = 0 then d else v)"

text \<open>\<open>x || d\<close> on an optional string: absent and the empty string are both falsy.\<close>

definition falsy_or_str :: "string option \<Rightarrow> string \<Rightarrow> string" where
  "falsy_or_str x d = (case x of None \<Rightarrow> d | Some v \<Rightarrow> if v = [] then d else v)"

text \<open>\<open>table?.[field]\<close> on an optional table.\<close>

definition lookup_opt :: "(string \<rightharpoonup> 'a) option \<Rightarrow> string \<Rightarrow> 'a option" where
  "lookup_opt table field = (case table of None \<Rightarrow> None | Some m \<Rightarrow> m field)"

definition no_constraints :: Constraints where
  "no_constraints = \<lparr>min_c = None, max_c = None, decimal = None, minLength = None,
     maxLength = None, minAge = None, maxAge = None, format = None\<rparr>"

text \<open>\<open>str.charAt(i)\<close>: the empty string outside the range.\<close>

definition charAt :: "string \<Rightarrow> int \<Rightarrow> string" where
  "charAt str i = (if 0 \<le> i \<and> i < int (length str) then [str ! nat i] else [])"

text \<open>\<open>array[i]\<close>: undefined outside the range.\<close>

definition index_at :: "'a list \<Rightarrow> int \<Rightarrow> 'a option" where
  "index_at array i = (if 0 \<le> i \<and> i < int (length array) then Some (array ! nat i) else None)"

fun string_of_nat :: "nat \<Rightarrow> string" where
  "string_of_nat n =
     (if n < 10 then [''0123456789'' ! n]
      else string_of_nat (n div 10) @ [''0123456789'' ! (n mod 10)])"

declare string_of_nat.simps [simp del]

text \<open>
  The text of an integer-valued number in a template literal or a concatenation (the
  source only prints results of \<open>randomInt\<close> on integer bounds).
\<close>

definition string_of_num :: "real \<Rightarrow> string" where
  "string_of_num x =
     (if x < 0 then ''-'' @ string_of_nat (nat (- \<lfloor>x\<rfloor>)) else string_of_nat (nat \<lfloor>x\<rfloor>))"

text \<open>An optional string in a template literal: \<open>undefined\<close> prints as its name.\<close>

definition string_of_opt :: "string option \<Rightarrow> string" where
  "string_of_opt x = (case x of None \<Rightarrow> ''undefined'' | Some str \<Rightarrow> str)"

definition val_of_opt :: "string option \<Rightarrow> jsval" where
  "val_of_opt x = (case x of None \<Rightarrow> VUndefined | Some str \<Rightarrow> VStr str)"

text \<open>\<open>str + n\<close> for a number \<open>n\<close>: \<open>undefined + n\<close> is NaN.\<close>

definition plus_num :: "string option \<Rightarrow> real \<Rightarrow> jsval" where
  "plus_num str n = (case str of None \<Rightarrow> VNaN | Some t \<Rightarrow> VStr (t @ string_of_num n))"

text \<open>\<open>str + suffix\<close>: a concatenation as soon as one operand is a string.\<close>

definition plus_str :: "string option \<Rightarrow> string option \<Rightarrow> jsval" where
  "plus_str str suffix =
     (if str = None \<and> suffix = None then VNaN
      else VStr (string_of_opt str @ string_of_opt suffix))"

text \<open>
  \<open>parseFloat(value.toFixed(digits))\<close>: the digits argument is truncated to an integer
  and must lie in 0..100, the value (of magnitude below 1e21) is rounded to that many
  decimals, ties away from zero.
\<close>

definition toFixed :: "real \<Rightarrow> real \<Rightarrow> error + real" where
  "toFixed x digits =
     (let f = (if digits < 0 then - \<lfloor>- digits\<rfloor> else \<lfloor>digits\<rfloor>) in
      if f < 0 \<or> 100 < f then Inl RangeError
      else Inr (sgn x * of_int \<lfloor>\<bar>x\<bar> * 10 ^ nat f + 1 / 2\<rfloor> / 10 ^ nat f))"

text \<open>\<open>parts.join(sep)\<close>.\<close>

fun join :: "string \<Rightarrow> string list \<Rightarrow> string" where
  "join sep [] = []"
| "join sep [x] = x"
| "join sep (x # y # ys) = x @ sep @ join sep (y # ys)"

text \<open>\<open>c.toUpperCase()\<close> on one ASCII character.\<close>

definition toUpperCase :: "char \<Rightarrow> char" where
  "toUpperCase c =
     (if 97 \<le> (of_char c :: nat) \<and> (of_char c :: nat) \<le> 122
      then char_of ((of_char c :: nat) - 32) else c)"

text \<open>\<open>record[field] = value\<close> on an object with the given own properties.\<close>

fun setProp :: "(string \<times> jsval) list \<Rightarrow> string \<Rightarrow> jsval \<Rightarrow> (string \<times> jsval) list" where
  "setProp [] field v = [(field, v)]"
| "setProp ((k, w) # rest) field v =
     (if k = field then (k, v) # rest else (k, w) # setProp rest field v)"

subsection \<open>The seeded PRNG and the operations derived from it\<close>

definition createSeededRandom :: "real \<Rightarrow> gstate" where
  "createSeededRandom seed0 = \<lparr>currentSeed = seed0, clockReads = 0\<rparr>"

text \<open>The closure \<open>createSeededRandom\<close> returns, \<open>this.random\<close>.\<close>

definition seededRandom :: "gstate \<Rightarrow> real \<times> gstate" where
  "seededRandom s =
     (let c = js_rem (currentSeed s * 9301 + 49297) 233280
      in (c / 233280, s\<lparr>currentSeed := c\<rparr>))"

definition randomInt :: "real \<Rightarrow> real \<Rightarrow> gstate \<Rightarrow> real \<times> gstate" where
  "randomInt lo hi s =
     (let (r, s1) = seededRandom s in (of_int \<lfloor>r * (hi - lo + 1)\<rfloor> + lo, s1))"

definition randomChoice :: "'a list \<Rightarrow> gstate \<Rightarrow> 'a option \<times> gstate" where
  "randomChoice array s =
     (let (r, s1) = seededRandom s in (index_at array \<lfloor>r * of_nat (length array)\<rfloor>, s1))"

definition randomBoolean :: "gstate \<Rightarrow> bool \<times> gstate" where
  "randomBoolean s = (let (r, s1) = seededRandom s in (r < 1 / 2, s1))"

text \<open>The loop of \<open>randomString\<close>; the first argument counts the iterations left.\<close>

fun randomString_loop :: "nat \<Rightarrow> string \<Rightarrow> string \<Rightarrow> gstate \<Rightarrow> string \<times> gstate" where
  "randomString_loop 0 charset result s = (result, s)"
| "randomString_loop (Suc n) charset result s =
     (let (r, s1) = seededRandom s
      in randomString_loop n charset
           (result @ charAt charset \<lfloor>r * of_nat (length charset)\<rfloor>) s1)"

definition default_charset :: string where
  "default_charset = ''abcdefghijklmnopqrstuvwxyzABCDEFGHIJKLMNOPQRSTUVWXYZ0123456789''"

text \<open>\<open>for (i = 0; i < length; i++)\<close> runs \<open>\<lceil>length\<rceil>\<close> times, and not at all below 0.\<close>

definition randomString :: "real \<Rightarrow> string \<Rightarrow> gstate \<Rightarrow> string \<times> gstate" where
  "randomString len charset s = randomString_loop (nat \<lceil>len\<rceil>) charset [] s"

text \<open>An array element under \<open>join\<close>: undefined is the empty string.\<close>

definition string_of_elem :: "string option \<Rightarrow> string" where
  "string_of_elem x = (case x of None \<Rightarrow> [] | Some str \<Rightarrow> str)"

text \<open>\<open>Array.from({ length: n }, () => this.randomChoice(array))\<close>.\<close>

fun randomChoices :: "nat \<Rightarrow> 'a list \<Rightarrow> gstate \<Rightarrow> 'a option list \<times> gstate" where
  "randomChoices 0 array s = ([], s)"
| "randomChoices (Suc n) array s =
     (let (x, s1) = randomChoice array s; (xs, s2) = randomChoices n array s1
      in (x # xs, s2))"

text \<open>
  \<open>varyString\<close>: the second draw is only made when the first is at least 0.3.
\<close>

definition varyString :: "string option \<Rightarrow> gstate \<Rightarrow> jsval \<times> gstate" where
  "varyString str s =
     (let (r1, s1) = seededRandom s in
      if r1 < 3 / 10 then
        (let (n, s2) = randomInt 1 999 s1 in (plus_num str n, s2))
      else
        (let (r2, s2) = seededRandom s1 in
         if r2 < 2 / 10 then
           (let (suffix, s3) =
                  randomChoice [''_test'', ''_demo'', ''_sample'', ''_v2'', ''_new''] s2
            in (plus_str str suffix, s3))
         else (val_of_opt str, s2)))"

subsection \<open>Dates\<close>

text \<open>
  \<open>new Date(t)\<close> clips the time value: beyond 8.64e15 ms it is an invalid date, otherwise
  it is truncated to whole milliseconds.
\<close>

definition TimeClip :: "real \<Rightarrow> int option" where
  "TimeClip t =
     (if 8640000000000000 < \<bar>t\<bar> then None
      else Some (if t < 0 then - \<lfloor>- t\<rfloor> else \<lfloor>t\<rfloor>))"

definition pad :: "nat \<Rightarrow> nat \<Rightarrow> string" where
  "pad width n = replicate (width - length (string_of_nat n)) (CHR ''0'') @ string_of_nat n"

text \<open>
  Year, month (1..12) and day of the month of a day number counted from 1970-01-01, in
  the proleptic Gregorian calendar: the day within its 400-year era, the year within the
  era, the day within the year counted from 1 March, and the month counted from March.
\<close>

definition civil_of_mp :: "int \<Rightarrow> int \<Rightarrow> int \<Rightarrow> int \<times> int \<times> int" where
  "civil_of_mp y0 doy mp =
     (y0 + (if (if mp < 10 then mp + 3 else mp - 9) \<le> 2 then 1 else 0),
      (if mp < 10 then mp + 3 else mp - 9),
      doy - (153 * mp + 2) div 5 + 1)"

definition civil_of_doy :: "int \<Rightarrow> int \<Rightarrow> int \<times> int \<times> int" where
  "civil_of_doy y0 doy = civil_of_mp y0 doy ((5 * doy + 2) div 153)"

definition civil_of_yoe :: "int \<Rightarrow> int \<Rightarrow> int \<Rightarrow> int \<times> int \<times> int" where
  "civil_of_yoe era doe yoe =
     civil_of_doy (yoe + era * 400) (doe - (365 * yoe + yoe div 4 - yoe div 100))"

definition civil_of_doe :: "int \<Rightarrow> int \<Rightarrow> int \<times> int \<times> int" where
  "civil_of_doe era doe =
     civil_of_yoe era doe ((doe - doe div 1460 + doe div 36524 - doe div 146096) div 365)"

definition civil_from_days :: "int \<Rightarrow> int \<times> int \<times> int" where
  "civil_from_days day = civil_of_doe ((day + 719468) div 146097) ((day + 719468) mod 146097)"

text \<open>
  \<open>Date.prototype.toISOString\<close> on a valid time value, in UTC:
  \<open>YYYY-MM-DDTHH:mm:ss.sssZ\<close>, with a sign and six digits for years outside 0..9999.
\<close>

definition iso_year :: "int \<Rightarrow> string" where
  "iso_year y =
     (if 0 \<le> y \<and> y \<le> 9999 then pad 4 (nat y)
      else (if y < 0 then ''-'' else ''+'') @ pad 6 (nat \<bar>y\<bar>))"

fun iso_of_civil :: "int \<times> int \<times> int \<Rightarrow> int \<Rightarrow> string" where
  "iso_of_civil (y, m, d) ms =
     iso_year y @ ''-'' @ pad 2 (nat m) @ ''-'' @ pad 2 (nat d) @ ''T''
     @ pad 2 (nat (ms div 3600000)) @ '':'' @ pad 2 (nat (ms div 60000 mod 60)) @ '':''
     @ pad 2 (nat (ms div 1000 mod 60)) @ ''.'' @ pad 3 (nat (ms mod 1000)) @ ''Z''"

definition isoString :: "int \<Rightarrow> string" where
  "isoString tv = iso_of_civil (civil_from_days (tv div 86400000)) (tv mod 86400000)"

text \<open>
  \<open>new Date(timestamp).toISOString()\<close>, where \<open>None\<close> is a NaN timestamp: an invalid
  date raises a RangeError.
\<close>

definition toISOString :: "real option \<Rightarrow> error + string" where
  "toISOString timestamp =
     (case timestamp of
        None \<Rightarrow> Inl RangeError
      | Some t \<Rightarrow> (case TimeClip t of None \<Rightarrow> Inl RangeError | Some tv \<Rightarrow> Inr (isoString tv)))"

text \<open>\<open>new Date()\<close>: the next reading of the clock.\<close>

definition newDate :: "env \<Rightarrow> gstate \<Rightarrow> real \<times> gstate" where
  "newDate e s = (clock e (clockReads s), s\<lparr>clockReads := Suc (clockReads s)\<rparr>)"

subsection \<open>Primitive value generators\<close>

definition generateString ::
  "string \<Rightarrow> Constraints \<Rightarrow> string list option \<Rightarrow> bool \<Rightarrow> gstate \<Rightarrow> jsval \<times> gstate" where
  "generateString field c pool vary s =
     (case pool of
        Some (x # xs) \<Rightarrow>
          (let (v, s1) = randomChoice (x # xs) s
           in if vary then varyString v s1 else (val_of_opt v, s1))
      | _ \<Rightarrow>
          (let minL = falsy_or (minLength c) 3;
               maxL = falsy_or (maxLength c) 20;
               (len, s1) = randomInt minL maxL s;
               (str, s2) = randomString len default_charset s1
           in (VStr str, s2)))"

definition generateNumber :: "Constraints \<Rightarrow> gstate \<Rightarrow> error + (jsval \<times> gstate)" where
  "generateNumber c s =
     (let lo = falsy_or (min_c c) 0;
          hi = falsy_or (max_c c) 100;
          dec = falsy_or (decimal c) 0;
          (r, s1) = seededRandom s;
          v = r * (hi - lo) + lo
      in if 0 < dec then (case toFixed v dec of Inl err \<Rightarrow> Inl err | Inr w \<Rightarrow> Inr (VNum w, s1))
         else Inr (VNum (of_int \<lfloor>v\<rfloor>), s1))"

definition generateEmail :: "string \<Rightarrow> string list option \<Rightarrow> bool \<Rightarrow> gstate \<Rightarrow> jsval \<times> gstate" where
  "generateEmail field pool vary s =
     (let domains = [''gmail.com'', ''yahoo.com'', ''hotmail.com'', ''outlook.com'', ''company.com''];
          firstNames = [''john'', ''jane'', ''mike'', ''sarah'', ''david'', ''emily'', ''chris'', ''lisa''];
          lastNames = [''smith'', ''johnson'', ''williams'', ''brown'', ''jones'', ''garcia'', ''miller''];
          (firstName, s1) = randomChoice firstNames s;
          (lastName, s2) = randomChoice lastNames s1;
          (domain, s3) = randomChoice domains s2;
          (n, s4) = randomInt 1 999 s3
      in (VStr (string_of_opt firstName @ ''.'' @ string_of_opt lastName @ string_of_num n
                @ ''@'' @ string_of_opt domain), s4))"

definition generatePhone :: "Constraints \<Rightarrow> gstate \<Rightarrow> jsval \<times> gstate" where
  "generatePhone c s =
     (if falsy_or_str (format c) ''us'' = ''us'' then
        (let (areaCode, s1) = randomInt 200 999 s;
             (exchange, s2) = randomInt 200 999 s1;
             (n, s3) = randomInt 1000 9999 s2
         in (VStr (''('' @ string_of_num areaCode @ '') '' @ string_of_num exchange @ ''-''
                   @ string_of_num n), s3))
      else (let (str, s1) = randomString 10 ''0123456789'' s in (VStr str, s1)))"

definition generateDate :: "env \<Rightarrow> Constraints \<Rightarrow> gstate \<Rightarrow> error + (jsval \<times> gstate)" where
  "generateDate e c s =
     (let (now, s1) = newDate e s;
          lo = falsy_or (minAge c) 0;
          hi = falsy_or (maxAge c) 100;
          minDate = Date_of_parts e (of_int (getFullYear e now) - hi) 0 1;
          maxDate = Date_of_parts e (of_int (getFullYear e now) - lo) 11 31;
          (r, s2) = seededRandom s1;
          timestamp = (case (minDate, maxDate) of
                         (Some a, Some b) \<Rightarrow> Some (a + r * (b - a))
                       | _ \<Rightarrow> None)
      in case toISOString timestamp of
           Inl err \<Rightarrow> Inl err
         | Inr str \<Rightarrow> Inr (VStr (takeWhile (\<lambda>ch. ch \<noteq> CHR ''T'') str), s2))"

definition generateDateTime :: "env \<Rightarrow> gstate \<Rightarrow> error + (jsval \<times> gstate)" where
  "generateDateTime e s =
     (let (now, s1) = newDate e s;
          past = TimeClip (now - 365 * 24 * 60 * 60 * 1000);
          future = TimeClip (now + 30 * 24 * 60 * 60 * 1000);
          (r, s2) = seededRandom s1;
          timestamp = (case (past, future) of
                         (Some a, Some b) \<Rightarrow> Some (of_int a + r * (of_int b - of_int a))
                       | _ \<Rightarrow> None)
      in case toISOString timestamp of
           Inl err \<Rightarrow> Inl err
         | Inr str \<Rightarrow> Inr (VStr str, s2))"

definition generateUrl :: "gstate \<Rightarrow> jsval \<times> gstate" where
  "generateUrl s =
     (let protocols = [''https://'', ''http://''];
          domains = [''example.com'', ''test.com'', ''demo.org'', ''sample.net''];
          paths = ['''', ''/page'', ''/product'', ''/user'', ''/api'', ''/docs''];
          (protocol, s1) = randomChoice protocols s;
          (domain, s2) = randomChoice domains s1;
          (path, s3) = randomChoice paths s2
      in (VStr (string_of_opt protocol @ string_of_opt domain @ string_of_opt path), s3))"

definition words :: "string list" where
  "words = [''lorem'', ''ipsum'', ''dolor'', ''sit'', ''amet'', ''consectetur'', ''adipiscing'', ''elit'']"

definition capitalize :: "string \<Rightarrow> string" where
  "capitalize sentence = (case sentence of [] \<Rightarrow> [] | ch # rest \<Rightarrow> toUpperCase ch # rest)"

text \<open>The \<open>while (currentLength < length)\<close> loop of \<open>generateText\<close>.\<close>

function generateText_loop ::
  "real \<Rightarrow> string list \<Rightarrow> int \<Rightarrow> gstate \<Rightarrow> string list \<times> gstate" where
  "generateText_loop len sentences currentLength s =
     (if of_int currentLength < len then
        (let (sentenceLength, s1) = randomInt 5 15 s;
             (ws, s2) = randomChoices (nat \<lfloor>sentenceLength\<rfloor>) words s1;
             sentence = join '' '' (map string_of_elem ws)
         in generateText_loop len (sentences @ [capitalize sentence @ ''.''])
              (currentLength + int (length sentence) + 1) s2)
      else (sentences, s))"
  by pat_completeness auto
termination
  by (relation "measure (\<lambda>(len, sentences, currentLength, s). nat (\<lceil>len\<rceil> - currentLength))")
     (auto simp: less_ceiling_iff)

declare generateText_loop.simps [simp del]

definition generateText :: "string list option \<Rightarrow> Constraints \<Rightarrow> gstate \<Rightarrow> jsval \<times> gstate" where
  "generateText pool c s =
     (case pool of
        Some (x # xs) \<Rightarrow> (let (v, s1) = randomChoice (x # xs) s in (val_of_opt v, s1))
      | _ \<Rightarrow>
          (let minL = falsy_or (minLength c) 50;
               maxL = falsy_or (maxLength c) 500;
               (len, s1) = randomInt minL maxL s;
               (sentences, s2) = generateText_loop len [] 0 s1
           in (VStr (join '' '' sentences), s2)))"

definition generateEnum :: "string list option \<Rightarrow> bool \<Rightarrow> gstate \<Rightarrow> jsval \<times> gstate" where
  "generateEnum choices vary s =
     (case choices of
        Some (x # xs) \<Rightarrow> (let (v, s1) = randomChoice (x # xs) s in (val_of_opt v, s1))
      | _ \<Rightarrow> (VStr ''unknown'', s))"

subsection \<open>The record generator\<close>

text \<open>
  The \<open>switch (type)\<close> of \<open>generateFieldValue\<close>, reached by every type descriptor that
  is neither an object nor an array. Only a string can equal one of the case labels.
\<close>

definition generateFieldValue_switch ::
  "env \<Rightarrow> DataTemplate \<Rightarrow> bool \<Rightarrow> string \<Rightarrow> json \<Rightarrow> gstate \<Rightarrow> error + (jsval \<times> gstate)" where
  "generateFieldValue_switch e t vary field ty s =
     (let c = (case lookup_opt (constraints t) field of None \<Rightarrow> no_constraints | Some x \<Rightarrow> x);
          choices = lookup_opt (enums t) field;
          pool = lookup_opt (data t) field
      in if ty = JStr ''string'' then Inr (generateString field c pool vary s)
         else if ty = JStr ''number'' then generateNumber c s
         else if ty = JStr ''boolean'' then
           (let (b, s1) = randomBoolean s in Inr (VBool b, s1))
         else if ty = JStr ''email'' then Inr (generateEmail field pool vary s)
         else if ty = JStr ''phone'' then Inr (generatePhone c s)
         else if ty = JStr ''date'' then generateDate e c s
         else if ty = JStr ''datetime'' then generateDateTime e s
         else if ty = JStr ''url'' then Inr (generateUrl s)
         else if ty = JStr ''text'' then Inr (generateText pool c s)
         else if ty = JStr ''enum'' then Inr (generateEnum choices vary s)
         else if choices \<noteq> None then Inr (generateEnum choices vary s)
         else Inr (generateString field c pool vary s))"

text \<open>
  \<open>generateFieldValue\<close> with the loop over the entries of a nested object and the
  callback of \<open>Array.from\<close>. The element type of an empty array marker is undefined,
  which takes the default branch of the switch as \<open>JNull\<close> does.
\<close>

function generateFieldValue ::
    "env \<Rightarrow> DataTemplate \<Rightarrow> bool \<Rightarrow> string \<Rightarrow> json \<Rightarrow> gstate \<Rightarrow> error + (jsval \<times> gstate)"
  and nested_loop ::
    "env \<Rightarrow> DataTemplate \<Rightarrow> bool \<Rightarrow> (string \<times> json) list \<Rightarrow> (string \<times> jsval) list \<Rightarrow> gstate
      \<Rightarrow> error + (jsval \<times> gstate)"
  and array_from ::
    "env \<Rightarrow> DataTemplate \<Rightarrow> bool \<Rightarrow> string \<Rightarrow> json \<Rightarrow> nat \<Rightarrow> gstate \<Rightarrow> error + (jsval list \<times> gstate)"
where
  "generateFieldValue e t vary field (JObj entries) s = nested_loop e t vary entries [] s"
| "generateFieldValue e t vary field (JArr []) s =
     (let (arrayLength, s1) = randomInt 1 5 s
      in case array_from e t vary field JNull (nat \<lfloor>arrayLength\<rfloor>) s1 of
           Inl err \<Rightarrow> Inl err
         | Inr (vs, s2) \<Rightarrow> Inr (VArr vs, s2))"
| "generateFieldValue e t vary field (JArr (arrayType # rest)) s =
     (let (arrayLength, s1) = randomInt 1 5 s
      in case array_from e t vary field arrayType (nat \<lfloor>arrayLength\<rfloor>) s1 of
           Inl err \<Rightarrow> Inl err
         | Inr (vs, s2) \<Rightarrow> Inr (VArr vs, s2))"
| "generateFieldValue e t vary field JNull s = generateFieldValue_switch e t vary field JNull s"
| "generateFieldValue e t vary field (JBool b) s =
     generateFieldValue_switch e t vary field (JBool b) s"
| "generateFieldValue e t vary field (JNum x) s =
     generateFieldValue_switch e t vary field (JNum x) s"
| "generateFieldValue e t vary field (JStr tag) s =
     generateFieldValue_switch e t vary field (JStr tag) s"
| "nested_loop e t vary [] nestedRecord s = Inr (VObj nestedRecord, s)"
| "nested_loop e t vary ((nestedField, nestedType) # rest) nestedRecord s =
     (case generateFieldValue e t vary nestedField nestedType s of
        Inl err \<Rightarrow> Inl err
      | Inr (v, s1) \<Rightarrow> nested_loop e t vary rest (setProp nestedRecord nestedField v) s1)"
| "array_from e t vary field arrayType 0 s = Inr ([], s)"
| "array_from e t vary field arrayType (Suc n) s =
     (case generateFieldValue e t vary field arrayType s of
        Inl err \<Rightarrow> Inl err
      | Inr (v, s1) \<Rightarrow>
          (case array_from e t vary field arrayType n s1 of
             Inl err \<Rightarrow> Inl err
           | Inr (vs, s2) \<Rightarrow> Inr (v # vs, s2)))"
  by pat_completeness auto
termination
  by (relation "measures
        [\<lambda>x. case x of
               Inl (e, t, vary, field, ty, s) \<Rightarrow> size ty
             | Inr (Inl (e, t, vary, entries, nestedRecord, s)) \<Rightarrow>
                 size_list (size_prod (\<lambda>x. 0) size) entries
             | Inr (Inr (e, t, vary, field, ty, n, s)) \<Rightarrow> size ty,
         \<lambda>x. case x of
               Inl (e, t, vary, field, ty, s) \<Rightarrow> 0
             | Inr (Inl (e, t, vary, entries, nestedRecord, s)) \<Rightarrow> 0
             | Inr (Inr (e, t, vary, field, ty, n, s)) \<Rightarrow> Suc n]")
     auto

text \<open>The loop of \<open>generateSingleRecord\<close> over \<open>Object.entries(template.schema)\<close>.\<close>

fun generateSingleRecord_loop ::
  "env \<Rightarrow> DataTemplate \<Rightarrow> bool \<Rightarrow> (string \<times> json) list \<Rightarrow> (string \<times> jsval) list \<Rightarrow> gstate
    \<Rightarrow> error + (jsval \<times> gstate)" where
  "generateSingleRecord_loop e t vary [] record s = Inr (VObj record, s)"
| "generateSingleRecord_loop e t vary ((field, ty) # rest) record s =
     (case generateFieldValue e t vary field ty s of
        Inl err \<Rightarrow> Inl err
      | Inr (v, s1) \<Rightarrow> generateSingleRecord_loop e t vary rest (setProp record field v) s1)"

definition generateSingleRecord ::
  "env \<Rightarrow> DataTemplate \<Rightarrow> bool \<Rightarrow> gstate \<Rightarrow> error + (jsval \<times> gstate)" where
  "generateSingleRecord e t vary s = generateSingleRecord_loop e t vary (schema t) [] s"

subsection \<open>The generator instance: constructor, template cache, batches\<close>

text \<open>\<open>constructor(seed?)\<close>: \<open>seed || Math.random() * 1000000\<close>.\<close>

definition JSONDataGenerator :: "env \<Rightarrow> real option \<Rightarrow> generator" where
  "JSONDataGenerator e seed0 =
     \<lparr>templates = Map.empty,
      rng = createSeededRandom (falsy_or seed0 (mathRandom e * 1000000))\<rparr>"

text \<open>The file \<open>loadTemplate\<close> reads when it is given no path.\<close>

definition default_templateFile :: "env \<Rightarrow> string \<Rightarrow> string" where
  "default_templateFile e templateName =
     path_join_dirname e (''../data/templates/'' @ templateName @ ''.json'')"

text \<open>
  \<open>loadTemplate\<close>: whatever the \<open>try\<close> block raises is rethrown as an \<open>Error\<close> whose
  message names the template; the cache is written after reading and parsing.
\<close>

definition loadTemplate ::
  "env \<Rightarrow> string \<Rightarrow> string option \<Rightarrow> generator \<Rightarrow> (error + DataTemplate) \<times> generator" where
  "loadTemplate e templateName templatePath g =
     (let templateFile = falsy_or_str templatePath (default_templateFile e templateName)
      in case readFileSync e templateFile of
           Inl err \<Rightarrow> (Inl (Error (''Failed to load template '' @ templateName @ '': '' @ err)), g)
         | Inr templateData \<Rightarrow>
             (case JSON_parse e templateData of
                Inl err \<Rightarrow>
                  (Inl (Error (''Failed to load template '' @ templateName @ '': '' @ err)), g)
              | Inr template \<Rightarrow>
                  (Inr template, g\<lparr>templates := (templates g)(templateName \<mapsto> template)\<rparr>)))"

definition isDuplicate :: "env \<Rightarrow> jsval \<Rightarrow> string set \<Rightarrow> bool" where
  "isDuplicate e d generatedValues = (JSON_stringify e d \<in> generatedValues)"

text \<open>
  The \<open>do ... while\<close> loop of \<open>generate\<close>; \<open>attempts\<close> is the counter before the
  iteration, the result carries the counter after the last one.
\<close>

function generate_attempts ::
  "env \<Rightarrow> DataTemplate \<Rightarrow> bool \<Rightarrow> bool \<Rightarrow> nat \<Rightarrow> string set \<Rightarrow> nat \<Rightarrow> gstate
    \<Rightarrow> error + (jsval \<times> nat \<times> gstate)" where
  "generate_attempts e t vary uniq maxAttempts generatedValues attempts s =
     (case generateSingleRecord e t vary s of
        Inl err \<Rightarrow> Inl err
      | Inr (d, s1) \<Rightarrow>
          if uniq \<and> isDuplicate e d generatedValues \<and> attempts + 1 < maxAttempts
          then generate_attempts e t vary uniq maxAttempts generatedValues (attempts + 1) s1
          else Inr (d, attempts + 1, s1))"
  by pat_completeness auto
termination
  by (relation "measure (\<lambda>(e, t, vary, uniq, maxAttempts, generatedValues, attempts, s).
        maxAttempts - attempts)") auto

declare generate_attempts.simps [simp del]

definition warning :: "nat \<Rightarrow> string" where
  "warning maxAttempts =
     ''Could not generate unique record after '' @ string_of_nat maxAttempts @ '' attempts''"

text \<open>
  The \<open>for (let i = 0; i < count; i++)\<close> loop of \<open>generate\<close>; the texts passed to
  \<open>console.warn\<close> are collected in order.
\<close>

function generate_loop ::
  "env \<Rightarrow> DataTemplate \<Rightarrow> bool \<Rightarrow> bool \<Rightarrow> int \<Rightarrow> int \<Rightarrow> jsval list \<Rightarrow> string set \<Rightarrow> string list
    \<Rightarrow> gstate \<Rightarrow> error + (jsval list \<times> string list \<times> gstate)" where
  "generate_loop e t vary uniq cnt i results generatedValues warnings s =
     (if i < cnt then
        (let maxAttempts = (if uniq then 100 else 1)
         in case generate_attempts e t vary uniq maxAttempts generatedValues 0 s of
              Inl err \<Rightarrow> Inl err
            | Inr (d, attempts, s1) \<Rightarrow>
                generate_loop e t vary uniq cnt (i + 1) (results @ [d])
                  (if uniq then insert (JSON_stringify e d) generatedValues
                   else generatedValues)
                  (if uniq \<and> maxAttempts \<le> attempts
                   then warnings @ [warning maxAttempts] else warnings)
                  s1)
      else Inr (results, warnings, s))"
  by pat_completeness auto
termination
  by (relation "measure (\<lambda>(e, t, vary, uniq, cnt, i, results, generatedValues, warnings, s).
        nat (cnt - i))") auto

declare generate_loop.simps [simp del]

text \<open>
  \<open>generate\<close>: the template comes from the cache or from \<open>loadTemplate\<close>; the options
  default to count 1, variations true, unique false. The result holds the records, the
  warnings and the instance afterwards.
\<close>

definition generate ::
  "env \<Rightarrow> string \<Rightarrow> GenerationOptions \<Rightarrow> generator
    \<Rightarrow> error + (jsval list \<times> string list \<times> generator)" where
  "generate e templateName options g =
     (case (case templates g templateName of
              Some t \<Rightarrow> (Inr t, g)
            | None \<Rightarrow> loadTemplate e templateName None g) of
        (Inl err, g1) \<Rightarrow> Inl err
      | (Inr template, g1) \<Rightarrow>
          (let cnt = (case count options of None \<Rightarrow> 1 | Some n \<Rightarrow> n);
               vary = (case variations options of None \<Rightarrow> True | Some b \<Rightarrow> b);
               uniq = (case unique options of None \<Rightarrow> False | Some b \<Rightarrow> b)
           in case generate_loop e template vary uniq cnt 0 [] {} [] (rng g1) of
                Inl err \<Rightarrow> Inl err
              | Inr (results, warnings, s1) \<Rightarrow> Inr (results, warnings, g1\<lparr>rng := s1\<rparr>)))"

subsection \<open>A concrete environment\<close>

text \<open>
  An environment for running the model: a machine in the UTC time zone whose clock stands
  at a given millisecond, with an empty template directory. \<open>stringify\<close> writes JSON
  text as \<open>JSON.stringify\<close> does for objects, arrays, booleans, strings without control
  characters, and integers; other numbers are written with up to 20 decimals.
\<close>

definition quote :: "string \<Rightarrow> string" where
  "quote str =
     ''\"'' @ concat (map (\<lambda>ch. if ch = CHR ''\"'' \<or> ch = CHR 0x5C then [CHR 0x5C, ch] else [ch]) str)
     @ ''\"''"

fun decimals :: "nat \<Rightarrow> real \<Rightarrow> string" where
  "decimals 0 x = []"
| "decimals (Suc n) x =
     (if x = 0 then []
      else string_of_nat (nat \<lfloor>x * 10\<rfloor>) @ decimals n (x * 10 - of_int \<lfloor>x * 10\<rfloor>))"

definition number_text :: "real \<Rightarrow> string" where
  "number_text x =
     (if x = of_int \<lfloor>x\<rfloor> then string_of_num x
      else (if x < 0 then ''-'' else []) @ string_of_nat (nat \<lfloor>\<bar>x\<bar>\<rfloor>) @ ''.''
           @ decimals 20 (\<bar>x\<bar> - of_int \<lfloor>\<bar>x\<bar>\<rfloor>))"

fun stringify :: "jsval \<Rightarrow> string option"
  and stringify_elements :: "jsval list \<Rightarrow> string list"
  and stringify_properties :: "(string \<times> jsval) list \<Rightarrow> string list" where
  "stringify VUndefined = None"
| "stringify VNaN = Some ''null''"
| "stringify (VNum x) = Some (number_text x)"
| "stringify (VBool b) = Some (if b then ''true'' else ''false'')"
| "stringify (VStr str) = Some (quote str)"
| "stringify (VArr vs) = Some (''['' @ join '','' (stringify_elements vs) @ '']'')"
| "stringify (VObj ps) = Some (''{'' @ join '','' (stringify_properties ps) @ ''}'')"
| "stringify_elements [] = []"
| "stringify_elements (v # vs) =
     (case stringify v of None \<Rightarrow> ''null'' | Some txt \<Rightarrow> txt) # stringify_elements vs"
| "stringify_properties [] = []"
| "stringify_properties ((k, v) # ps) =
     (case stringify v of
        None \<Rightarrow> stringify_properties ps
      | Some txt \<Rightarrow> (quote k @ '':'' @ txt) # stringify_properties ps)"

definition days_of_era :: "int \<Rightarrow> int \<Rightarrow> int" where
  "days_of_era y1 doy =
     (y1 div 400) * 146097
     + ((y1 mod 400) * 365 + (y1 mod 400) div 4 - (y1 mod 400) div 100 + doy) - 719468"

definition days_from_civil :: "int \<Rightarrow> int \<Rightarrow> int \<Rightarrow> int" where
  "days_from_civil y m d =
     days_of_era (if m \<le> 2 then y - 1 else y)
       ((153 * (if 2 < m then m - 3 else m + 9) + 2) div 5 + d - 1)"

text \<open>A year from 0 to 99 given to the \<open>Date\<close> constructor means 1900 plus that year.\<close>

definition full_year :: "int \<Rightarrow> int" where
  "full_year y = (if 0 \<le> y \<and> y \<le> 99 then 1900 + y else y)"

text \<open>\<open>new Date(year, monthIndex, day).getTime()\<close> in UTC, for a month index in 0..11.\<close>

definition utc_Date_of_parts :: "real \<Rightarrow> int \<Rightarrow> int \<Rightarrow> real option" where
  "utc_Date_of_parts year monthIndex day =
     (case TimeClip (of_int (days_from_civil (full_year (if year < 0 then - \<lfloor>- year\<rfloor> else \<lfloor>year\<rfloor>))
                               (monthIndex + 1) day * 86400000)) of
        None \<Rightarrow> None
      | Some tv \<Rightarrow> Some (of_int tv))"

definition utc_getFullYear :: "real \<Rightarrow> int" where
  "utc_getFullYear t = fst (civil_from_days (\<lfloor>t\<rfloor> div 86400000))"

definition utc_env :: "real \<Rightarrow> real \<Rightarrow> env" where
  "utc_env now entropy =
     \<lparr>clock = (\<lambda>k. now),
      getFullYear = utc_getFullYear,
      Date_of_parts = utc_Date_of_parts,
      mathRandom = entropy,
      JSON_stringify = (\<lambda>v. case stringify v of None \<Rightarrow> ''undefined'' | Some txt \<Rightarrow> txt),
      readFileSync = (\<lambda>file. Inl (''Error: ENOENT: no such file or directory, open '' @ file)),
      JSON_parse = (\<lambda>txt. Inl ''SyntaxError: Unexpected end of JSON input''),
      path_join_dirname = (\<lambda>rel. ''/cypress/utils/'' @ rel)\<rparr>"

text \<open>A template with the given schema and no constraints, enums or data pools.\<close>

definition plain_template :: "(string \<times> json) list \<Rightarrow> DataTemplate" where
  "plain_template sch = \<lparr>schema = sch, constraints = None, enums = None, data = None\<rparr>"

definition constrained_template :: "(string \<times> json) list \<Rightarrow> (string \<rightharpoonup> Constraints) \<Rightarrow> DataTemplate" where
  "constrained_template sch cs =
     \<lparr>schema = sch, constraints = Some cs, enums = None, data = None\<rparr>"

text \<open>A fresh instance with one template registered under a name.\<close>

definition registered :: "env \<Rightarrow> real option \<Rightarrow> string \<Rightarrow> DataTemplate \<Rightarrow> generator" where
  "registered e seed0 name t = (JSONDataGenerator e seed0)\<lparr>templates := [name \<mapsto> t]\<rparr>"

subsection \<open>Notions the properties are stated with\<close>

text \<open>\<open>x ?? d\<close>: the default applies only when the property is absent.\<close>

definition nullish_or :: "real option \<Rightarrow> real \<Rightarrow> real" where
  "nullish_or x d = (case x of None \<Rightarrow> d | Some v \<Rightarrow> v)"

text \<open>A number with at most \<open>f\<close> decimals.\<close>

definition on_grid :: "nat \<Rightarrow> real \<Rightarrow> bool" where
  "on_grid f x = (x * 10 ^ f = of_int \<lfloor>x * 10 ^ f\<rfloor>)"




text \<open>A template can be loaded from the backing store: its file is read and parsed.\<close>

definition loadable :: "env \<Rightarrow> string \<Rightarrow> bool" where
  "loadable e templateName =
     (case readFileSync e (default_templateFile e templateName) of
        Inl err \<Rightarrow> False
      | Inr templateData \<Rightarrow>
          (case JSON_parse e templateData of Inl err \<Rightarrow> False | Inr template \<Rightarrow> True))"

text \<open>The records of a batch, when \<open>generate\<close> returns one.\<close>

definition records_of :: "error + (jsval list \<times> string list \<times> generator) \<Rightarrow> jsval list option" where
  "records_of res = (case res of Inl err \<Rightarrow> None | Inr (results, warnings, g) \<Rightarrow> Some results)"

definition warnings_of :: "error + (jsval list \<times> string list \<times> generator) \<Rightarrow> string list" where
  "warnings_of res = (case res of Inl err \<Rightarrow> [] | Inr (results, warnings, g) \<Rightarrow> warnings)"

text \<open>The options of a call: count, variations, unique.\<close>

definition options :: "int option \<Rightarrow> bool option \<Rightarrow> bool option \<Rightarrow> GenerationOptions" where
  "options n vary uniq =
     \<lparr>count = n, locale_name = None, seed = None, variations = vary, unique = uniq\<rparr>"

text \<open>A constraint object with only \<open>min\<close>, \<open>max\<close> and \<open>decimal\<close>.\<close>

definition number_constraints :: "real option \<Rightarrow> real option \<Rightarrow> real option \<Rightarrow> Constraints" where
  "number_constraints lo hi dec = no_constraints\<lparr>min_c := lo, max_c := hi, decimal := dec\<rparr>"

text \<open>A constraint object with only \<open>minLength\<close> and \<open>maxLength\<close>.\<close>

definition length_constraints :: "real option \<Rightarrow> real option \<Rightarrow> Constraints" where
  "length_constraints lo hi = no_constraints\<lparr>minLength := lo, maxLength := hi\<rparr>"

subsection \<open>Templates used in the examples\<close>

text \<open>
  A template with constraints, an enumeration and a data pool, a nested object and an
  array marker.
\<close>

definition demo_template :: DataTemplate where
  "demo_template =
     \<lparr>schema = [(''id'', JStr ''number''), (''name'', JStr ''string''), (''role'', JStr ''enum''),
                (''address'', JObj [(''city'', JStr ''string''), (''zip'', JStr ''number'')]),
                (''flags'', JArr [JStr ''boolean''])],
      constraints = Some [''name'' \<mapsto> length_constraints (Some 2) (Some 4),
                          ''zip'' \<mapsto> number_constraints (Some 10000) (Some 99999) None],
      enums = Some [''role'' \<mapsto> [''admin'', ''user'']],
      data = Some [''city'' \<mapsto> [''Paris'', ''Rome'']]\<rparr>"

text \<open>One number field with \<open>max = 1.01\<close>: the value is 0 unless the draw is at least 1/1.01.\<close>

definition skewed_template :: DataTemplate where
  "skewed_template =
     constrained_template [(''n'', JStr ''number'')]
       [''n'' \<mapsto> number_constraints None (Some (101 / 100)) None]"

section \<open>Properties\<close>

subsection \<open>The PRNG\<close>




lemma seededRandom_clockReads: "clockReads (snd (seededRandom s)) = clockReads s"
  by (simp add: seededRandom_def Let_def)




subsection \<open>Uniform choice and random integers\<close>


lemma randomChoice_eq:
  "randomChoice array s =
     (index_at array \<lfloor>fst (seededRandom s) * of_nat (length array)\<rfloor>, snd (seededRandom s))"
  by (simp add: randomChoice_def case_prod_beta)

lemma randomInt_eq:
  "randomInt lo hi s = (of_int \<lfloor>fst (seededRandom s) * (hi - lo + 1)\<rfloor> + lo, snd (seededRandom s))"
  by (simp add: randomInt_def case_prod_beta)








subsection \<open>Numbers\<close>









lemmas number_eval =
  number_constraints_def no_constraints_def generateNumber_def falsy_or_def toFixed_def
  seededRandom_def js_rem_def createSeededRandom_def nullish_or_def on_grid_def



text \<open>An explicit \<open>max = 0\<close> is replaced by the default 100: the range is \<open>[-10, 100)\<close>.\<close>

lemma generateNumber_zero_max_example:
  "generateNumber (number_constraints (Some (- 10)) (Some 0) None) (createSeededRandom 12345)
     = Inr (VNum 35, \<lparr>currentSeed = 96382, clockReads = 0\<rparr>)"
  by (simp add: number_eval)

subsection \<open>Strings\<close>





lemma randomString_loop_numeral:
  "randomString_loop (numeral n) charset result s =
     randomString_loop (pred_numeral n) charset
       (result @ charAt charset \<lfloor>fst (seededRandom s) * of_nat (length charset)\<rfloor>)
       (snd (seededRandom s))"
  by (simp add: numeral_eq_Suc case_prod_beta)

lemma length_default_charset: "length default_charset = 62"
  by (simp add: default_charset_def)

lemmas string_eval =
  length_constraints_def no_constraints_def generateString_def falsy_or_def randomInt_eq
  randomString_def randomString_loop_numeral length_default_charset charAt_def
  seededRandom_def js_rem_def createSeededRandom_def nullish_or_def



text \<open>An explicit \<open>minLength = 0\<close> is replaced by the default 3.\<close>

lemma generateString_zero_bound_example:
  "generateString ''code'' (length_constraints (Some 0) (Some 2)) None True (createSeededRandom 12345)
     = (VStr ''avn'', \<lparr>currentSeed = 51493, clockReads = 0\<rparr>)"
  by (simp add: string_eval) (simp add: default_charset_def)

subsection \<open>Loading templates\<close>

text \<open>
  C10. When \<open>loadTemplate\<close> fails, the instance (and with it the template cache) is left
  as it was; when it succeeds, the only change is the new cache entry, and the file was
  read and parsed successfully.
\<close>

theorem loadTemplate_atomic:
  "(case loadTemplate e templateName templatePath g of
      (Inl err, g1) \<Rightarrow> g1 = g
    | (Inr template, g1) \<Rightarrow>
        g1 = g\<lparr>templates := (templates g)(templateName \<mapsto> template)\<rparr>
        \<and> (\<exists>templateData.
              readFileSync e (falsy_or_str templatePath (default_templateFile e templateName))
                = Inr templateData
              \<and> JSON_parse e templateData = Inr template))"
  by (simp add: loadTemplate_def Let_def split: sum.splits)

lemma loadTemplate_not_loadable:
  assumes "\<not> loadable e templateName"
  shows "\<exists>err. loadTemplate e templateName None g
           = (Inl (Error (''Failed to load template '' @ templateName @ '': '' @ err)), g)"
  using assms
  by (auto simp: loadTemplate_def loadable_def falsy_or_str_def Let_def split: sum.splits)

text \<open>
  C6. For a template name that is neither in the cache nor loadable from the backing
  store, \<open>generate\<close> raises an error whose message contains the template name, and returns
  no record sequence.
\<close>

theorem generate_template_not_found:
  assumes "templates g templateName = None" and "\<not> loadable e templateName"
  shows "(\<exists>err. generate e templateName opts g
            = Inl (Error (''Failed to load template '' @ templateName @ '': '' @ err)))
         \<and> records_of (generate e templateName opts g) = None"
proof -
  obtain err where "loadTemplate e templateName None g
           = (Inl (Error (''Failed to load template '' @ templateName @ '': '' @ err)), g)"
    using loadTemplate_not_loadable [OF assms(2)] by blast
  then show ?thesis using assms(1) by (simp add: generate_def records_of_def)
qed

lemmas env_eval = utc_env_def registered_def JSONDataGenerator_def createSeededRandom_def
  falsy_or_def plain_template_def constrained_template_def options_def

theorem generate_template_not_found_witness:
  "templates (JSONDataGenerator (utc_env 0 0) (Some 12345)) ''nonexistent'' = None
   \<and> \<not> loadable (utc_env 0 0) ''nonexistent''
   \<and> generate (utc_env 0 0) ''nonexistent'' (options (Some 5) None None)
        (JSONDataGenerator (utc_env 0 0) (Some 12345))
      = Inl (Error (''Failed to load template nonexistent: Error: ENOENT: no such file or directory, open /cypress/utils/../data/templates/nonexistent.json''))
   \<and> records_of (generate (utc_env 0 0) ''nonexistent'' (options (Some 5) None None)
        (JSONDataGenerator (utc_env 0 0) (Some 12345))) = None"
  using generate_template_not_found [where g = "JSONDataGenerator (utc_env 0 0) (Some 12345)"
      and templateName = "''nonexistent''" and e = "utc_env 0 0" and opts = "options (Some 5) None None"]
  by (simp add: env_eval loadable_def default_templateFile_def generate_def loadTemplate_def
        falsy_or_str_def records_of_def)

theorem loadTemplate_atomic_witness:
  "loadTemplate (utc_env 0 0) ''user'' None (JSONDataGenerator (utc_env 0 0) (Some 12345))
     = (Inl (Error (''Failed to load template user: Error: ENOENT: no such file or directory, open /cypress/utils/../data/templates/user.json'')),
        JSONDataGenerator (utc_env 0 0) (Some 12345))"
  using loadTemplate_atomic [where e = "utc_env 0 0" and templateName = "''user''"
      and templatePath = None and g = "JSONDataGenerator (utc_env 0 0) (Some 12345)"]
  by (simp add: env_eval default_templateFile_def loadTemplate_def falsy_or_str_def)

subsection \<open>The shape of a record\<close>







lemma array_from_numeral:
  "array_from e t vary field ty (numeral n) s =
     (case generateFieldValue e t vary field ty s of
        Inl err \<Rightarrow> Inl err
      | Inr (v, s1) \<Rightarrow>
          (case array_from e t vary field ty (pred_numeral n) s1 of
             Inl err \<Rightarrow> Inl err
           | Inr (vs, s2) \<Rightarrow> Inr (v # vs, s2)))"
  by (simp add: numeral_eq_Suc)

lemmas record_eval =
  generateSingleRecord_def generateFieldValue_switch_def lookup_opt_def
  generateString_def generateNumber_def generateEnum_def randomBoolean_def varyString_def
  randomChoice_eq randomInt_eq index_at_def plus_num_def plus_str_def val_of_opt_def
  string_of_opt_def string_of_num_def toFixed_def
  randomString_def randomString_loop_numeral length_default_charset charAt_def
  array_from_numeral
  length_constraints_def number_constraints_def no_constraints_def falsy_or_def
  seededRandom_def js_rem_def createSeededRandom_def


subsection \<open>Running batches\<close>

lemmas batch_eval =
  generate_def generate_loop.simps generate_attempts.simps isDuplicate_def warning_def
  string_of_nat.simps options_def registered_def JSONDataGenerator_def utc_env_def
  plain_template_def constrained_template_def quote_def number_text_def

lemmas date_eval =
  generateDateTime_def newDate_def TimeClip_def toISOString_def isoString_def iso_year_def
  civil_from_days_def civil_of_doe_def civil_of_yoe_def civil_of_doy_def civil_of_mp_def pad_def

subsection \<open>The number of records in a batch\<close>








text \<open>
  The counter of the do-while loop: at least one attempt, never more than the budget, and
  an exit before the budget is spent only on a record that is not a duplicate.
\<close>

theorem generate_attempts_bounds:
  "generate_attempts e t vary uniq maxAttempts generatedValues attempts s = Inr (d, k, s') \<Longrightarrow>
   attempts < maxAttempts \<Longrightarrow>
   attempts < k \<and> k \<le> maxAttempts \<and> (uniq \<and> k < maxAttempts \<longrightarrow> \<not> isDuplicate e d generatedValues)"
proof (induction e t vary uniq maxAttempts generatedValues attempts s rule: generate_attempts.induct)
  case (1 e t vary uniq maxAttempts generatedValues attempts s)
  from "1.prems"(1) obtain d1 s1 where g: "generateSingleRecord e t vary s = Inr (d1, s1)"
    by (subst (asm) generate_attempts.simps) (auto split: sum.splits)
  show ?case
  proof (cases "uniq \<and> isDuplicate e d1 generatedValues \<and> attempts + 1 < maxAttempts")
    case True
    then have "generate_attempts e t vary uniq maxAttempts generatedValues (attempts + 1) s1 = Inr (d, k, s')"
      using "1.prems"(1) g by (subst (asm) generate_attempts.simps) simp
    then have "attempts + 1 < k \<and> k \<le> maxAttempts
        \<and> (uniq \<and> k < maxAttempts \<longrightarrow> \<not> isDuplicate e d generatedValues)"
      using "1.IH" [OF g refl] True by simp
    then show ?thesis by simp
  next
    case False
    then have "d = d1 \<and> k = attempts + 1"
      using "1.prems"(1) g by (subst (asm) generate_attempts.simps) auto
    then show ?thesis using False "1.prems"(2) by auto
  qed
qed

theorem generate_attempts_bounds_witness:
  "generate_attempts (utc_env 0 0) skewed_template True True 100 {} 0 (createSeededRandom 224)
     = Inr (VObj [(''n'', VNum 0)], 1, \<lparr>currentSeed = 33201, clockReads = 0\<rparr>)
   \<and> (0::nat) < 100 \<and> (0::nat) < 1 \<and> (1::nat) \<le> 100
   \<and> \<not> isDuplicate (utc_env 0 0) (VObj [(''n'', VNum 0)]) {}"
  using generate_attempts_bounds [where e = "utc_env 0 0" and t = skewed_template and vary = True
      and uniq = True and maxAttempts = 100 and generatedValues = "{}" and attempts = 0
      and s = "createSeededRandom 224"]
  by (simp add: skewed_template_def batch_eval record_eval)






subsection \<open>The uniqueness retry loop\<close>

text \<open>
  C5 fails on the code. With seed 224, the template with one number field of
  \<open>max = 1.01\<close>, count 2 and unique requested, the second record is found on the 100th
  attempt and differs from the first, yet the warning is surfaced: the code warns
  whenever the attempt counter reaches 100, also when the last attempt was unique.
\<close>

theorem warning_although_unique:
  "generate (utc_env 0 0) ''t'' (options (Some 2) None (Some True))
     (registered (utc_env 0 0) (Some 224) ''t'' skewed_template)
   = Inr ([VObj [(''n'', VNum 0)], VObj [(''n'', VNum 1)]],
          [''Could not generate unique record after 100 attempts''],
          (registered (utc_env 0 0) (Some 224) ''t'' skewed_template)
            \<lparr>rng := \<lparr>currentSeed = 231421, clockReads = 0\<rparr>\<rparr>)
   \<and> JSON_stringify (utc_env 0 0) (VObj [(''n'', VNum 0)])
       \<noteq> JSON_stringify (utc_env 0 0) (VObj [(''n'', VNum 1)])"
  by (simp add: skewed_template_def batch_eval record_eval)

subsection \<open>Determinism\<close>

text \<open>Nothing but the constructor reads \<open>Math.random()\<close>.\<close>

lemma switch_env:
  "generateFieldValue_switch (e\<lparr>mathRandom := x\<rparr>) t vary field ty s
     = generateFieldValue_switch e t vary field ty s"
  by (simp add: generateFieldValue_switch_def generateDate_def generateDateTime_def newDate_def
        Let_def cong: if_cong)

lemma walker_env:
  "generateFieldValue (e\<lparr>mathRandom := x\<rparr>) t vary field ty s = generateFieldValue e t vary field ty s"
  "nested_loop (e\<lparr>mathRandom := x\<rparr>) t vary entries acc s = nested_loop e t vary entries acc s"
  "array_from (e\<lparr>mathRandom := x\<rparr>) t vary field ty n s = array_from e t vary field ty n s"
proof (induction e t vary field ty s and e t vary entries acc s and e t vary field ty n s
       rule: generateFieldValue_nested_loop_array_from.induct)
  case (2 e t vary field s)
  obtain len s1 where r: "randomInt 1 5 s = (len, s1)" by (cases "randomInt 1 5 s")
  show ?case using 2 [OF refl r [symmetric]] r by simp
next
  case (3 e t vary field arrayType rest s)
  obtain len s1 where r: "randomInt 1 5 s = (len, s1)" by (cases "randomInt 1 5 s")
  show ?case using 3 [OF refl r [symmetric]] r by simp
next
  case (9 e t vary nestedField nestedType rest nestedRecord s)
  show ?case
  proof (cases "generateFieldValue e t vary nestedField nestedType s")
    case (Inl err)
    then show ?thesis using 9(1) by simp
  next
    case (Inr b)
    obtain v s1 where b: "b = (v, s1)" by (cases b)
    show ?thesis using 9(1) 9(2) [OF Inr b [symmetric]] Inr b by simp
  qed
next
  case (11 e t vary field arrayType n s)
  show ?case
  proof (cases "generateFieldValue e t vary field arrayType s")
    case (Inl err)
    then show ?thesis using 11(1) by simp
  next
    case (Inr b)
    obtain v s1 where b: "b = (v, s1)" by (cases b)
    show ?thesis using 11(1) 11(2) [OF Inr b [symmetric]] Inr b by simp
  qed
qed (simp_all add: switch_env)

lemma generateSingleRecord_loop_env:
  "generateSingleRecord_loop (e\<lparr>mathRandom := x\<rparr>) t vary entries acc s
     = generateSingleRecord_loop e t vary entries acc s"
  by (induction entries arbitrary: acc s) (auto simp: walker_env split: sum.splits)

lemma generateSingleRecord_env:
  "generateSingleRecord (e\<lparr>mathRandom := x\<rparr>) t vary s = generateSingleRecord e t vary s"
  by (simp add: generateSingleRecord_def generateSingleRecord_loop_env)

lemma generate_attempts_env:
  "generate_attempts (e\<lparr>mathRandom := x\<rparr>) t vary uniq maxAttempts generatedValues attempts s
     = generate_attempts e t vary uniq maxAttempts generatedValues attempts s"
proof (induction e t vary uniq maxAttempts generatedValues attempts s rule: generate_attempts.induct)
  case (1 e t vary uniq maxAttempts generatedValues attempts s)
  show ?case
  proof (cases "generateSingleRecord e t vary s")
    case (Inl err)
    then show ?thesis
      by (simp add: generate_attempts.simps [of "e\<lparr>mathRandom := x\<rparr>"]
            generate_attempts.simps [of e] generateSingleRecord_env)
  next
    case (Inr b)
    obtain d s1 where b: "b = (d, s1)" by (cases b)
    show ?thesis
      using 1 [OF Inr b [symmetric]] Inr b
      by (simp add: generate_attempts.simps [of "e\<lparr>mathRandom := x\<rparr>" t vary uniq maxAttempts generatedValues attempts s]
            generate_attempts.simps [of e t vary uniq maxAttempts generatedValues attempts s]
            generateSingleRecord_env isDuplicate_def)
  qed
qed

lemma generate_loop_env:
  "generate_loop (e\<lparr>mathRandom := x\<rparr>) t vary uniq cnt i results generatedValues warnings s
     = generate_loop e t vary uniq cnt i results generatedValues warnings s"
proof (induction e t vary uniq cnt i results generatedValues warnings s rule: generate_loop.induct)
  case (1 e t vary uniq cnt i results generatedValues warnings s)
  show ?case
  proof (cases "i < cnt")
    case True
    show ?thesis
    proof (cases "generate_attempts e t vary uniq (if uniq then 100 else 1) generatedValues 0 s")
      case (Inl err)
      then show ?thesis using True
        by (simp add: generate_loop.simps [of "e\<lparr>mathRandom := x\<rparr>" t vary uniq cnt i results generatedValues warnings s]
              generate_loop.simps [of e t vary uniq cnt i results generatedValues warnings s]
              generate_attempts_env)
    next
      case (Inr b)
      obtain d k s1 where b: "b = (d, k, s1)" by (cases b)
      have kk: "(k, s1) = (k, s1)" by simp
      let ?gv = "if uniq then insert (JSON_stringify e d) generatedValues else generatedValues"
      let ?ws = "if uniq \<and> (if uniq then 100 else 1) \<le> k
                 then warnings @ [warning (if uniq then 100 else 1)] else warnings"
      have lhs: "generate_loop (e\<lparr>mathRandom := x\<rparr>) t vary uniq cnt i results generatedValues warnings s
          = generate_loop (e\<lparr>mathRandom := x\<rparr>) t vary uniq cnt (i + 1) (results @ [d]) ?gv ?ws s1"
        using True Inr b by (subst generate_loop.simps) (simp add: generate_attempts_env Let_def)
      have rhs: "generate_loop e t vary uniq cnt i results generatedValues warnings s
          = generate_loop e t vary uniq cnt (i + 1) (results @ [d]) ?gv ?ws s1"
        using True Inr b by (subst generate_loop.simps) (simp add: Let_def)
      show ?thesis using 1 [OF True refl Inr b [symmetric] kk] lhs rhs by simp
    qed
  next
    case False
    then show ?thesis
      by (simp add: generate_loop.simps [of "e\<lparr>mathRandom := x\<rparr>" t vary uniq cnt i results generatedValues warnings s]
            generate_loop.simps [of e t vary uniq cnt i results generatedValues warnings s])
  qed
qed

lemma loadTemplate_env:
  "loadTemplate (e\<lparr>mathRandom := x\<rparr>) templateName templatePath g
     = loadTemplate e templateName templatePath g"
  by (simp add: loadTemplate_def default_templateFile_def split: sum.splits)

lemma generate_env:
  "generate (e\<lparr>mathRandom := x\<rparr>) templateName opts g = generate e templateName opts g"
  by (simp add: generate_def loadTemplate_env generate_loop_env Let_def
        split: option.splits sum.splits prod.splits)

lemma JSONDataGenerator_seeded:
  "seed0 \<noteq> 0 \<Longrightarrow> JSONDataGenerator e (Some seed0) = \<lparr>templates = Map.empty, rng = createSeededRandom seed0\<rparr>"
  by (simp add: JSONDataGenerator_def falsy_or_def)

text \<open>
  C1, as amended. For every non-zero integer seed, every template registry and every
  call, two fresh instances constructed with that seed return the same records, the
  same warnings and the same final state, whatever \<open>Math.random()\<close> returns, provided the
  two runs read the same clock values (and use the same \<open>Date\<close> and file system).
\<close>

theorem generate_deterministic:
  assumes "S \<noteq> 0"
  shows "generate (e\<lparr>mathRandom := x\<rparr>) templateName opts
           ((JSONDataGenerator (e\<lparr>mathRandom := x\<rparr>) (Some (of_int S)))\<lparr>templates := reg\<rparr>)
         = generate (e\<lparr>mathRandom := y\<rparr>) templateName opts
           ((JSONDataGenerator (e\<lparr>mathRandom := y\<rparr>) (Some (of_int S)))\<lparr>templates := reg\<rparr>)"
proof -
  have "(of_int S :: real) \<noteq> 0" using assms by simp
  then have "JSONDataGenerator (e\<lparr>mathRandom := x\<rparr>) (Some (of_int S))
      = JSONDataGenerator (e\<lparr>mathRandom := y\<rparr>) (Some (of_int S))"
    by (simp add: JSONDataGenerator_seeded)
  then show ?thesis by (simp add: generate_env)
qed

theorem generate_deterministic_witness:
  "(12345::int) \<noteq> 0
   \<and> generate (utc_env 1700000000000 (1 / 10)) ''demo'' (options (Some 5) None None)
        (registered (utc_env 1700000000000 (1 / 10)) (Some 12345) ''demo'' demo_template)
     = generate (utc_env 1700000000000 (9 / 10)) ''demo'' (options (Some 5) None None)
        (registered (utc_env 1700000000000 (9 / 10)) (Some 12345) ''demo'' demo_template)"
  using generate_deterministic [where S = 12345 and e = "utc_env 1700000000000 0"
      and x = "1 / 10" and y = "9 / 10" and templateName = "''demo''"
      and opts = "options (Some 5) None None" and reg = "[''demo'' \<mapsto> demo_template]"]
  by (simp add: utc_env_def registered_def)

text \<open>
  C1 as stated fails for a template with a datetime field: the value is computed from
  the current time, so two runs with seed 12345 that start one millisecond apart return
  different records.
\<close>

theorem generate_clock_counterexample:
  "records_of (generate (utc_env 1700000000000 0) ''event'' (options (Some 5) None None)
     (registered (utc_env 1700000000000 0) (Some 12345) ''event''
        (plain_template [(''createdAt'', JStr ''datetime'')])))
   = Some [VObj [(''createdAt'', VStr ''2023-04-27T02:58:49.629Z'')],
           VObj [(''createdAt'', VStr ''2022-11-20T09:50:53.703Z'')],
           VObj [(''createdAt'', VStr ''2023-04-02T23:14:26.666Z'')],
           VObj [(''createdAt'', VStr ''2023-02-10T02:47:15.185Z'')],
           VObj [(''createdAt'', VStr ''2023-02-27T15:40:25.925Z'')]]
   \<and> records_of (generate (utc_env 1700000000001 0) ''event'' (options (Some 5) None None)
     (registered (utc_env 1700000000001 0) (Some 12345) ''event''
        (plain_template [(''createdAt'', JStr ''datetime'')])))
   = Some [VObj [(''createdAt'', VStr ''2023-04-27T02:58:49.630Z'')],
           VObj [(''createdAt'', VStr ''2022-11-20T09:50:53.704Z'')],
           VObj [(''createdAt'', VStr ''2023-04-02T23:14:26.667Z'')],
           VObj [(''createdAt'', VStr ''2023-02-10T02:47:15.186Z'')],
           VObj [(''createdAt'', VStr ''2023-02-27T15:40:25.926Z'')]]"
  by (simp add: records_of_def batch_eval record_eval date_eval)

text \<open>
  The seed 0 is falsy in \<open>seed || Math.random() * 1000000\<close>: the instance is seeded from
  \<open>Math.random()\<close> instead, and two instances constructed with seed 0 differ.
\<close>

lemma generate_seed_zero_example:
  "records_of (generate (utc_env 0 (1 / 10)) ''t'' (options (Some 5) None None)
     (registered (utc_env 0 (1 / 10)) (Some 0) ''t'' (plain_template [(''active'', JStr ''boolean'')])))
   = Some [VObj [(''active'', VBool True)], VObj [(''active'', VBool False)],
           VObj [(''active'', VBool True)], VObj [(''active'', VBool True)],
           VObj [(''active'', VBool False)]]
   \<and> records_of (generate (utc_env 0 (2 / 10)) ''t'' (options (Some 5) None None)
     (registered (utc_env 0 (2 / 10)) (Some 0) ''t'' (plain_template [(''active'', JStr ''boolean'')])))
   = Some [VObj [(''active'', VBool True)], VObj [(''active'', VBool False)],
           VObj [(''active'', VBool True)], VObj [(''active'', VBool False)],
           VObj [(''active'', VBool False)]]"
  by (simp add: records_of_def batch_eval record_eval)

end
